theory Spec2Isabelle
  imports Main "HOL-Library.Word"
begin

unbundle bit_operations_syntax

section \<open>Common data\<close>

type_synonym byte = "8 word"
type_synonym uint16 = "16 word"
type_synonym uint32 = "32 word"

text \<open>
  The error kinds of errors.go: \<open>ArgumentError\<close>, \<open>MessageError\<close> and
  \<open>CommandError\<close> with its completion code. An error of the network layer
  (\<open>Timeout\<close> is a \<open>net.Error\<close> whose \<open>Timeout()\<close> holds), a failure of
  \<open>rand.Read\<close> and a Go run-time panic (index or slice bounds out of range) are kept
  apart from them.
\<close>

datatype error =
    ArgumentError
  | MessageError
  | CommandError byte
  | Timeout
  | NetError
  | RandError
  | Panic

text \<open>Go's \<open>buf[lo:hi]\<close>, for \<open>lo \<le> hi \<le> len(buf)\<close>.\<close>

definition subslice :: "nat \<Rightarrow> nat \<Rightarrow> 'a list \<Rightarrow> 'a list" where
  "subslice lo hi buf = take (hi - lo) (drop lo buf)"

text \<open>
  Go's \<open>copy(dst, src)\<close>: the first \<open>min(len(dst), len(src))\<close> elements of
  \<open>dst\<close> are overwritten; the result is the new content of \<open>dst\<close>.
\<close>

definition copy_bytes :: "'a list \<Rightarrow> 'a list \<Rightarrow> 'a list" where
  "copy_bytes dst src = take (length dst) src @ drop (length src) dst"

text \<open>\<open>copy(buf[n:], src)\<close>, for \<open>n \<le> len(buf)\<close>: the new content of \<open>buf\<close>.\<close>

definition copy_at :: "nat \<Rightarrow> 'a list \<Rightarrow> 'a list \<Rightarrow> 'a list" where
  "copy_at n buf src = take n buf @ copy_bytes (drop n buf) src"

text \<open>
  \<open>append(buf, make([]byte, size - len(buf))...)\<close>: the buffer extended by zero bytes
  to \<open>size\<close>.
\<close>

definition zero_extend :: "nat \<Rightarrow> byte list \<Rightarrow> byte list" where
  "zero_extend sz buf = buf @ replicate (sz - length buf) 0"

text \<open>
  \<open>binary.LittleEndian.Uint16\<close>, \<open>binary.LittleEndian.Uint32\<close> and
  \<open>binary.BigEndian.Uint32\<close> on the first bytes of a buffer that is long enough.
\<close>

definition LittleEndian_Uint16 :: "byte list \<Rightarrow> uint16" where
  "LittleEndian_Uint16 b = ucast (b ! 0) OR push_bit 8 (ucast (b ! 1))"

definition LittleEndian_Uint32 :: "byte list \<Rightarrow> uint32" where
  "LittleEndian_Uint32 b =
     ucast (b ! 0) OR push_bit 8 (ucast (b ! 1)) OR push_bit 16 (ucast (b ! 2))
       OR push_bit 24 (ucast (b ! 3))"

definition BigEndian_Uint32 :: "byte list \<Rightarrow> uint32" where
  "BigEndian_Uint32 b =
     ucast (b ! 3) OR push_bit 8 (ucast (b ! 2)) OR push_bit 16 (ucast (b ! 1))
       OR push_bit 24 (ucast (b ! 0))"

section \<open>Framing: the Unmarshal methods of the received messages\<close>

text \<open>
  Each \<open>Unmarshal\<close> returns the decoded value with the rest of the buffer, or the
  error. \<open>nil\<close> as the rest is \<open>[]\<close>.
\<close>

subsection \<open>RMCP header, ASF header and Pong body\<close>

definition rmcpHeaderSize :: nat where "rmcpHeaderSize = 4"
definition asfHeaderSize :: nat where "asfHeaderSize = 8"
definition pongBodySize :: nat where "pongBodySize = 16"

record rmcpHeader =
  Version :: byte
  Reserved :: byte
  Sequence :: byte
  Class :: byte

definition rmcpHeader_Unmarshal :: "byte list \<Rightarrow> error + (rmcpHeader \<times> byte list)" where
  "rmcpHeader_Unmarshal buf =
     (if length buf < rmcpHeaderSize then Inl MessageError
      else Inr (\<lparr> Version = buf ! 0, Reserved = buf ! 1, Sequence = buf ! 2, Class = buf ! 3 \<rparr>,
                drop rmcpHeaderSize buf))"

record asfHeader =
  asf_IANA :: uint32
  asf_Type :: byte
  asf_Tag :: byte
  asf_Reserved :: byte
  asf_Length :: byte

definition asfHeader_Unmarshal :: "byte list \<Rightarrow> error + (asfHeader \<times> byte list)" where
  "asfHeader_Unmarshal buf =
     (if length buf < asfHeaderSize then Inl MessageError
      else Inr (\<lparr> asf_IANA = BigEndian_Uint32 buf, asf_Type = buf ! 4, asf_Tag = buf ! 5,
                  asf_Reserved = buf ! 6, asf_Length = buf ! 7 \<rparr>,
                drop 8 buf))"

record pongMessage =
  pong_IANA :: uint32
  pong_OEM :: uint32
  SupEntities :: byte
  SupInteract :: byte
  pong_Reserved :: "byte list"

definition pongMessage_Unmarshal :: "byte list \<Rightarrow> error + (pongMessage \<times> byte list)" where
  "pongMessage_Unmarshal buf =
     (if length buf < pongBodySize then Inl MessageError
      else Inr (\<lparr> pong_IANA = BigEndian_Uint32 buf, pong_OEM = BigEndian_Uint32 (drop 4 buf),
                  SupEntities = buf ! 8, SupInteract = buf ! 9,
                  pong_Reserved = copy_bytes (replicate 6 0) (drop 10 buf) \<rparr>,
                drop pongBodySize buf))"

subsection \<open>Session headers\<close>

definition sessionHeaderV1_5Size :: nat where "sessionHeaderV1_5Size = 10"
definition sessionHeaderV1_5SizeWithAuth :: nat where "sessionHeaderV1_5SizeWithAuth = 26"
definition sessionHeaderV2_0Size :: nat where "sessionHeaderV2_0Size = 12"
definition authTypeNone :: byte where "authTypeNone = 0"

record sessionHeaderV1_5 =
  h15_authType :: byte
  h15_sequence :: uint32
  h15_id :: uint32
  h15_payloadLength :: byte
  h15_authCode :: "byte list"

definition sessionHeaderV1_5_Unmarshal ::
  "byte list \<Rightarrow> error + (sessionHeaderV1_5 \<times> byte list)" where
  "sessionHeaderV1_5_Unmarshal buf =
     (if length buf < sessionHeaderV1_5Size then Inl MessageError
      else let s = \<lparr> h15_authType = buf ! 0, h15_sequence = LittleEndian_Uint32 (drop 1 buf),
                      h15_id = LittleEndian_Uint32 (drop 5 buf), h15_payloadLength = 0,
                      h15_authCode = replicate 16 0 \<rparr>
        in if h15_authType s = authTypeNone
           then Inr (s\<lparr>h15_payloadLength := buf ! (sessionHeaderV1_5Size - 1)\<rparr>,
                     drop sessionHeaderV1_5Size buf)
           else if length buf \<ge> sessionHeaderV1_5SizeWithAuth
           then Inr (s\<lparr>h15_authCode :=
                          copy_bytes (replicate 16 0) (drop (sessionHeaderV1_5Size - 1) buf),
                        h15_payloadLength := buf ! (sessionHeaderV1_5SizeWithAuth - 1)\<rparr>,
                     drop sessionHeaderV1_5SizeWithAuth buf)
           else Inl MessageError)"

record sessionHeaderV2_0 =
  h20_authType :: byte
  h20_payloadType :: byte
  h20_id :: uint32
  h20_sequence :: uint32
  h20_payloadLength :: uint16

definition sessionHeaderV2_0_Unmarshal ::
  "byte list \<Rightarrow> error + (sessionHeaderV2_0 \<times> byte list)" where
  "sessionHeaderV2_0_Unmarshal buf =
     (if length buf < sessionHeaderV2_0Size then Inl MessageError
      else Inr (\<lparr> h20_authType = buf ! 0, h20_payloadType = buf ! 1,
                  h20_id = LittleEndian_Uint32 (drop 2 buf),
                  h20_sequence = LittleEndian_Uint32 (drop 6 buf),
                  h20_payloadLength = LittleEndian_Uint16 (drop 10 buf) \<rparr>,
                drop sessionHeaderV2_0Size buf))"

subsection \<open>payload_ipmi.go: checksum and the IPMI response message\<close>

text \<open>The loop \<open>for _, x := range buf { c += x }\<close> on a \<open>byte\<close> accumulator.\<close>

fun checksum_loop :: "byte \<Rightarrow> byte list \<Rightarrow> byte" where
  "checksum_loop c [] = c"
| "checksum_loop c (x # xs) = checksum_loop (c + x) xs"

definition checksum :: "byte list \<Rightarrow> byte" where
  "checksum buf = - checksum_loop 0 buf"

definition ipmiResponseMessageMinSize :: nat where
  "ipmiResponseMessageMinSize = 8"

record ipmiResponseMessage =
  RqAddr :: byte
  NetFnRsRUN :: byte
  RsAddr :: byte
  RqSeq :: byte
  Code :: byte
  CompletionCode :: byte
  Data :: "byte list"

definition ipmiResponseMessage_Unmarshal ::
  "byte list \<Rightarrow> error + (ipmiResponseMessage \<times> byte list)" where
  "ipmiResponseMessage_Unmarshal buf =
     (if length buf < ipmiResponseMessageMinSize then Inl MessageError
      else if checksum (subslice 0 2 buf) \<noteq> buf ! 2 then Inl MessageError
      else if checksum (subslice 3 (length buf - 1) buf) \<noteq> buf ! (length buf - 1)
        then Inl MessageError
      else Inr (\<lparr> RqAddr = buf ! 0, NetFnRsRUN = buf ! 1, RsAddr = buf ! 3, RqSeq = buf ! 4,
                  Code = buf ! 5, CompletionCode = buf ! 6,
                  Data = subslice 7 (length buf - 1) buf \<rparr>, []))"

subsection \<open>payload_session.go: Open Session Response, RAKP 2 and RAKP 4\<close>

definition openSessionResponseSize :: nat where "openSessionResponseSize = 36"
definition rakpMessage2Size :: nat where "rakpMessage2Size = 40"
definition rakpMessage4Size :: nat where "rakpMessage4Size = 8"
definition integrityCheckSize :: nat where "integrityCheckSize = 12"
definition authCodeSize :: nat where "authCodeSize = 20"

record cipherSuite =
  Auth :: byte
  Integrity :: byte
  Crypt :: byte

record openSessionResponse =
  osr_MessageTag :: byte
  osr_StatusCode :: byte
  osr_PrivilegeLevel :: byte
  osr_ConsoleID :: uint32
  osr_ManagedID :: uint32
  osr_CipherSuite :: cipherSuite

text \<open>A short buffer is extended by zero bytes and decoded; there is no error branch.\<close>

definition openSessionResponse_Unmarshal ::
  "byte list \<Rightarrow> error + (openSessionResponse \<times> byte list)" where
  "openSessionResponse_Unmarshal buf0 =
     (let buf = (if length buf0 < openSessionResponseSize
                 then zero_extend openSessionResponseSize buf0 else buf0)
      in Inr (\<lparr> osr_MessageTag = buf ! 0, osr_StatusCode = buf ! 1,
                osr_PrivilegeLevel = buf ! 2,
                osr_ConsoleID = LittleEndian_Uint32 (drop 4 buf),
                osr_ManagedID = LittleEndian_Uint32 (drop 8 buf),
                osr_CipherSuite = \<lparr> Auth = buf ! 16, Integrity = buf ! 24, Crypt = buf ! 32 \<rparr> \<rparr>,
              drop openSessionResponseSize buf))"

record rakpMessage2 =
  r2_MessageTag :: byte
  r2_StatusCode :: byte
  r2_ConsoleID :: uint32
  ManagedRand :: "byte list"
  ManagedGUID :: "byte list"
  KeyExchangeAuthCode :: "byte list"

definition rakpMessage2_Unmarshal :: "byte list \<Rightarrow> error + (rakpMessage2 \<times> byte list)" where
  "rakpMessage2_Unmarshal buf0 =
     (let sz = rakpMessage2Size;
          buf = (if length buf0 < sz then zero_extend sz buf0 else buf0)
      in Inr (\<lparr> r2_MessageTag = buf ! 0, r2_StatusCode = buf ! 1,
                r2_ConsoleID = LittleEndian_Uint32 (drop 4 buf),
                ManagedRand = copy_bytes (replicate 16 0) (subslice 8 24 buf),
                ManagedGUID = copy_bytes (replicate 16 0) (subslice 24 40 buf),
                KeyExchangeAuthCode = copy_bytes (replicate authCodeSize 0) (drop 40 buf) \<rparr>,
              drop sz buf))"

record rakpMessage4 =
  r4_MessageTag :: byte
  r4_StatusCode :: byte
  r4_ConsoleID :: uint32
  IntegrityCheckValue :: "byte list"

definition rakpMessage4_Unmarshal :: "byte list \<Rightarrow> error + (rakpMessage4 \<times> byte list)" where
  "rakpMessage4_Unmarshal buf0 =
     (let sz = rakpMessage4Size + integrityCheckSize;
          buf = (if length buf0 < sz then zero_extend sz buf0 else buf0)
      in Inr (\<lparr> r4_MessageTag = buf ! 0, r4_StatusCode = buf ! 1,
                r4_ConsoleID = LittleEndian_Uint32 (drop 4 buf),
                IntegrityCheckValue = copy_bytes (replicate integrityCheckSize 0) (drop 8 buf) \<rparr>,
              drop sz buf))"

subsection \<open>Command responses and the SDR header\<close>

text \<open>\<open>cmdValidateLength\<close>: the error, if any.\<close>

definition cmdValidateLength :: "byte list \<Rightarrow> nat \<Rightarrow> error option" where
  "cmdValidateLength msg m = (if length msg < m then Some MessageError else None)"

text \<open>
  Of the fields of a response, those that the enumerators read are kept: the version
  and the count of Get SDR Repository Info and of Get SEL Info, the reservation id, and
  the next record id with the record data.
\<close>

definition GetSDRRepositoryInfoCommand_Unmarshal :: "byte list \<Rightarrow> error + (byte \<times> uint16)" where
  "GetSDRRepositoryInfoCommand_Unmarshal buf =
     (case cmdValidateLength buf 14 of
        Some e \<Rightarrow> Inl e
      | None \<Rightarrow> Inr (buf ! 0, LittleEndian_Uint16 (subslice 1 3 buf)))"

definition ReserveSDRRepositoryCommand_Unmarshal :: "byte list \<Rightarrow> error + uint16" where
  "ReserveSDRRepositoryCommand_Unmarshal buf =
     (case cmdValidateLength buf 2 of
        Some e \<Rightarrow> Inl e
      | None \<Rightarrow> Inr (LittleEndian_Uint16 buf))"

text \<open>
  \<open>GetSDRCommand.Unmarshal\<close> and \<open>GetSELEntryCommand.Unmarshal\<close> (the same code):
  the next record id and at most \<open>ReadBytes\<close> bytes of record data.
\<close>

definition GetSDRCommand_Unmarshal :: "byte \<Rightarrow> byte list \<Rightarrow> error + (uint16 \<times> byte list)" where
  "GetSDRCommand_Unmarshal ReadBytes buf0 =
     (case cmdValidateLength buf0 2 of
        Some e \<Rightarrow> Inl e
      | None \<Rightarrow>
          (let NextRecordID = LittleEndian_Uint16 buf0; buf = drop 2 buf0
           in if length buf \<le> unat ReadBytes then Inr (NextRecordID, buf)
              else Inr (NextRecordID, take (unat ReadBytes) buf)))"

definition GetSELInfoCommand_Unmarshal :: "byte list \<Rightarrow> error + (byte \<times> uint16)" where
  "GetSELInfoCommand_Unmarshal buf =
     (case cmdValidateLength buf 14 of
        Some e \<Rightarrow> Inl e
      | None \<Rightarrow> Inr (buf ! 0, LittleEndian_Uint16 (subslice 1 3 buf)))"

definition ReserveSELCommand_Unmarshal :: "byte list \<Rightarrow> error + uint16" where
  "ReserveSELCommand_Unmarshal buf =
     (case cmdValidateLength buf 2 of
        Some e \<Rightarrow> Inl e
      | None \<Rightarrow> Inr (LittleEndian_Uint16 buf))"

definition sdrHeaderSize :: nat where "sdrHeaderSize = 5"

record sdrHeader =
  RecordID :: uint16
  SDRVersion :: byte
  RecordType :: byte
  RemainingBytes :: byte

definition sdrHeader_Unmarshal :: "byte list \<Rightarrow> error + (sdrHeader \<times> byte list)" where
  "sdrHeader_Unmarshal buf =
     (if length buf < sdrHeaderSize then Inl MessageError
      else Inr (\<lparr> RecordID = LittleEndian_Uint16 (subslice 0 2 buf), SDRVersion = buf ! 2,
                  RecordType = buf ! 3, RemainingBytes = buf ! 4 \<rparr>,
                drop sdrHeaderSize buf))"

section \<open>Cryptography of the v2.0 session (Section 13.29 and Table 13-8)\<close>

text \<open>
  AES-128 (crypto/aes) and HMAC-SHA1 (crypto/hmac, crypto/sha1) belong to the Go
  standard library, not to this package. They are parameters of the model:
  \<open>aes_enc k b\<close> and \<open>aes_dec k b\<close> are the encryption and decryption of one
  16-byte block \<open>b\<close> under the 16-byte key \<open>k\<close>, and \<open>hmac_sha1 k m\<close> is the 20-byte
  MAC of \<open>m\<close> under \<open>k\<close>. The CBC mode of crypto/cipher is written out.
\<close>

definition aes_BlockSize :: nat where "aes_BlockSize = 16"

definition xor_block :: "byte list \<Rightarrow> byte list \<Rightarrow> byte list" where
  "xor_block a b = map2 (XOR) a b"


fun CBCDecrypt :: "(byte list \<Rightarrow> byte list) \<Rightarrow> nat \<Rightarrow> byte list \<Rightarrow> byte list \<Rightarrow> byte list" where
  "CBCDecrypt D 0 prev src = []"
| "CBCDecrypt D (Suc n) prev src =
     (let c = take 16 src in xor_block (D c) prev @ CBCDecrypt D n c (drop 16 src))"


text \<open>The loop \<open>for i := 0; i < padLen; i++ { input[srcLen+i] = byte(i + 1) }\<close>.\<close>

fun fill_pad :: "nat \<Rightarrow> nat \<Rightarrow> byte list \<Rightarrow> byte list" where
  "fill_pad srcLen 0 input = input"
| "fill_pad srcLen (Suc i) input = (fill_pad srcLen i input)[srcLen + i := of_nat (i + 1)]"



text \<open>
  \<open>dst[len(dst)-1]\<close> panics when \<open>dst\<close> is empty, and \<open>dst[:len(dst)-padLen-1]\<close> when
  the bound is negative.
\<close>

definition decryptPayload ::
  "(byte list \<Rightarrow> byte list \<Rightarrow> byte list) \<Rightarrow> byte list \<Rightarrow> byte list \<Rightarrow> error + byte list" where
  "decryptPayload aes_dec src key =
     (if length key < 16 then Inl Panic
      else if length src < aes_BlockSize \<or> length src mod aes_BlockSize \<noteq> 0
        then Inl MessageError
      else let iv = take aes_BlockSize src;
               data = drop aes_BlockSize src;
               dst = CBCDecrypt (aes_dec (take 16 key)) (length data div aes_BlockSize) iv data
        in if dst = [] then Inl Panic
           else let padLen = unat (last dst)
             in if length dst < padLen + 1 then Inl Panic
                else Inr (take (length dst - padLen - 1) dst))"

definition trailer_padLen :: "nat \<Rightarrow> nat" where
  "trailer_padLen srcLen =
     (let m = (srcLen + 1 + 1 + 12) mod 4 in if m \<noteq> 0 then 4 - m else 0)"

text \<open>The loop \<open>for i := 0; i < padLen; i++ { data[srcLen+i] = 0xff }\<close>.\<close>

fun fill_ff :: "nat \<Rightarrow> nat \<Rightarrow> byte list \<Rightarrow> byte list" where
  "fill_ff srcLen 0 data = data"
| "fill_ff srcLen (Suc i) data = (fill_ff srcLen i data)[srcLen + i := 0xff]"

definition makeTrailer ::
  "(byte list \<Rightarrow> byte list \<Rightarrow> byte list) \<Rightarrow> byte list \<Rightarrow> byte list \<Rightarrow> byte list" where
  "makeTrailer hmac_sha1 src key =
     (let srcLen = length src;
          padLen = trailer_padLen srcLen;
          data0 = copy_bytes (replicate (srcLen + padLen + 2 + 12) 0) src;
          data1 = fill_ff srcLen padLen data0;
          data2 = data1[srcLen + padLen := of_nat padLen];
          data3 = data2[srcLen + padLen + 1 := 0x07];
          authCode = hmac_sha1 key (take (srcLen + padLen + 2) data3);
          data4 = copy_at (srcLen + padLen + 2) data3 (take 12 authCode)
      in drop srcLen data4)"

definition validateTrailer ::
  "(byte list \<Rightarrow> byte list \<Rightarrow> byte list) \<Rightarrow> byte list \<Rightarrow> byte list \<Rightarrow> error option" where
  "validateTrailer hmac_sha1 src key =
     (if length src < 12 then Some MessageError
      else let authCode = drop (length src - 12) src;
               generated = hmac_sha1 key (take (length src - 12) src)
        in if authCode \<noteq> take 12 generated then Some MessageError else None)"

section \<open>Commands and the peer\<close>

text \<open>
  The commands the enumerators and the session send, with their request fields:
  \<open>GetSDRCommand\<close> and \<open>GetSELEntryCommand\<close> carry \<open>ReservationID\<close>,
  \<open>RecordID\<close>, \<open>RecordOffset\<close> and \<open>ReadBytes\<close>, \<open>closeSessionCommand\<close> the
  session id.
\<close>

datatype command =
    GetSDRRepositoryInfoCommand
  | ReserveSDRRepositoryCommand
  | GetSDRCommand uint16 uint16 byte byte
  | GetSELInfoCommand
  | ReserveSELCommand
  | GetSELEntryCommand uint16 uint16 byte byte
  | closeSessionCommand uint32

text \<open>
  The managed system behind \<open>Client.Execute\<close>: from its state \<open>'b\<close> and a command,
  its new state and either the error of the exchange (of the network, of the framing,
  or \<open>CommandError\<close> for a completion code other than 0) or the response data
  \<open>rsm.Data\<close>, which the command then unmarshals.
\<close>

type_synonym 'b peer = "'b \<Rightarrow> command \<Rightarrow> 'b \<times> (error + byte list)"

text \<open>
  The completion codes are the constants of one \<open>const\<close> block, whose first two
  entries are \<open>CompletionOK = 0x00\<close> and \<open>CompletionUnspecifiedError = 0xff\<close> and
  whose third is \<open>CompletionNodeBusy = iota + 0xc0\<close>; the entries after it repeat
  that expression. \<open>iota\<close> is the index of the entry in the block, so it is 2 at
  \<open>CompletionNodeBusy\<close>, 5 at \<open>CompletionTimeout\<close>, 7 at
  \<open>CompletionReservationCancelled\<close> and 10 at
  \<open>CompletionRequestDataFieldExceedEd\<close>.
\<close>

definition CompletionOK :: byte where
  "CompletionOK = 0x00"

definition CompletionNodeBusy :: byte where
  "CompletionNodeBusy = 2 + 0xc0"

definition CompletionTimeout :: byte where
  "CompletionTimeout = 5 + 0xc0"

definition CompletionReservationCancelled :: byte where
  "CompletionReservationCancelled = 7 + 0xc0"

definition CompletionRequestDataFieldExceedEd :: byte where
  "CompletionRequestDataFieldExceedEd = 10 + 0xc0"

definition Execute_GetSDRCommand ::
  "'b peer \<Rightarrow> 'b \<Rightarrow> uint16 \<Rightarrow> uint16 \<Rightarrow> byte \<Rightarrow> byte \<Rightarrow> 'b \<times> (error + (uint16 \<times> byte list))" where
  "Execute_GetSDRCommand peer b reservation recordID off readBytes =
     (case peer b (GetSDRCommand reservation recordID off readBytes) of
        (b', Inl e) \<Rightarrow> (b', Inl e)
      | (b', Inr d) \<Rightarrow> (b', GetSDRCommand_Unmarshal readBytes d))"


section \<open>sdr.go: enumeration of the SDR repository\<close>

definition sdrFirstID :: uint16 where "sdrFirstID = 0x0000"
definition sdrLastID :: uint16 where "sdrLastID = 0xffff"
definition sdrDefaultReadBytes :: byte where "sdrDefaultReadBytes = 32"
definition sdrFullSensorSize :: nat where "sdrFullSensorSize = 25 + 18"
definition sdrFRUDeviceLocatorSize :: nat where "sdrFRUDeviceLocatorSize = 11"
definition SDRTypeFullSensor :: byte where "SDRTypeFullSensor = 0x01"
definition SDRTypeFRUDeviceLocator :: byte where "SDRTypeFRUDeviceLocator = 0x11"

text \<open>
  A record of the repository: its header and its bytes \<open>Data()\<close>. The decoded fields
  of a Full Sensor and of a FRU Device Locator are functions of these bytes, and their
  \<open>Unmarshal\<close> fails only on a body shorter than the fixed size.
\<close>

datatype SDR =
    SDRFullSensor sdrHeader "byte list"
  | SDRFRUDeviceLocator sdrHeader "byte list"
  | sdrRaw sdrHeader "byte list"

definition sdrGetRecordHeaderAndNextID ::
  "'b peer \<Rightarrow> 'b \<Rightarrow> uint16 \<Rightarrow> uint16 \<Rightarrow> 'b \<times> (error + (sdrHeader \<times> uint16))" where
  "sdrGetRecordHeaderAndNextID peer b reservation recordID =
     (case Execute_GetSDRCommand peer b reservation recordID 0 (of_nat sdrHeaderSize) of
        (b', Inl e) \<Rightarrow> (b', Inl e)
      | (b', Inr (NextRecordID, RecordData)) \<Rightarrow>
          (case sdrHeader_Unmarshal RecordData of
             Inl e \<Rightarrow> (b', Inl e)
           | Inr (header, rest) \<Rightarrow>
               (b', Inr (if recordID \<noteq> sdrFirstID \<and> recordID \<noteq> RecordID header
                         then header\<lparr>RecordID := recordID\<rparr> else header,
                         NextRecordID))))"

text \<open>
  The adjustment of \<open>c.sdrReadingBytes\<close>, a \<open>uint8\<close>, on completion code
  Request data field exceeded.
\<close>

definition shrink_reading_bytes :: "byte \<Rightarrow> byte" where
  "shrink_reading_bytes rb =
     (let rb' = rb - 8 in if rb' < of_nat sdrHeaderSize then of_nat sdrHeaderSize else rb')"

text \<open>
  The loop of \<open>sdrGetRecord\<close>, with \<open>n\<close>, \<open>buf\<close>, the client's \<open>sdrReadingBytes\<close>
  and the state of the peer. The loop need not end (a peer may answer with no data
  for ever): the first argument bounds the number of iterations, and \<open>None\<close> is
  running out of it.
\<close>

fun sdrGetRecord_loop ::
  "nat \<Rightarrow> 'b peer \<Rightarrow> uint16 \<Rightarrow> sdrHeader \<Rightarrow> byte \<Rightarrow> byte list \<Rightarrow> byte \<Rightarrow> 'b
     \<Rightarrow> (byte \<times> 'b \<times> (error + byte list)) option" where
  "sdrGetRecord_loop 0 peer reservation header n buf rb b = None"
| "sdrGetRecord_loop (Suc fuel) peer reservation header n buf rb b =
     (if \<not> n < RemainingBytes header then Some (rb, b, Inr buf)
      else let r0 = RemainingBytes header - n;
               r = (if r0 > rb then rb else r0)
        in case Execute_GetSDRCommand peer b reservation (RecordID header)
                  (n + of_nat sdrHeaderSize) r of
             (b', Inl e) \<Rightarrow>
               (if e = CommandError CompletionRequestDataFieldExceedEd \<and> rb > of_nat sdrHeaderSize
                then sdrGetRecord_loop fuel peer reservation header n buf
                       (shrink_reading_bytes rb) b'
                else Some (rb, b', Inl e))
           | (b', Inr (NextRecordID, RecordData)) \<Rightarrow>
               sdrGetRecord_loop fuel peer reservation header
                 (n + of_nat (length RecordData)) (copy_at (unat n) buf RecordData) rb b')"

definition sdrGetRecord ::
  "nat \<Rightarrow> 'b peer \<Rightarrow> uint16 \<Rightarrow> sdrHeader \<Rightarrow> byte \<Rightarrow> 'b \<Rightarrow> (byte \<times> 'b \<times> (error + SDR)) option" where
  "sdrGetRecord fuel peer reservation header rb b =
     (case sdrGetRecord_loop fuel peer reservation header 0
             (replicate (unat (RemainingBytes header)) 0) rb b of
        None \<Rightarrow> None
      | Some (rb', b', Inl e) \<Rightarrow> Some (rb', b', Inl e)
      | Some (rb', b', Inr buf) \<Rightarrow>
          Some (rb', b',
            if RecordType header = SDRTypeFullSensor
            then (if length buf < sdrFullSensorSize then Inl MessageError
                  else Inr (SDRFullSensor header buf))
            else if RecordType header = SDRTypeFRUDeviceLocator
            then (if length buf < sdrFRUDeviceLocatorSize then Inl MessageError
                  else Inr (SDRFRUDeviceLocator header buf))
            else Inr (sdrRaw header buf)))"

definition Execute_ReserveSDRRepositoryCommand :: "'b peer \<Rightarrow> 'b \<Rightarrow> 'b \<times> (error + uint16)" where
  "Execute_ReserveSDRRepositoryCommand peer b =
     (case peer b ReserveSDRRepositoryCommand of
        (b', Inl e) \<Rightarrow> (b', Inl e)
      | (b', Inr d) \<Rightarrow> (b', ReserveSDRRepositoryCommand_Unmarshal d))"

definition Execute_GetSDRRepositoryInfoCommand ::
  "'b peer \<Rightarrow> 'b \<Rightarrow> 'b \<times> (error + (byte \<times> uint16))" where
  "Execute_GetSDRRepositoryInfoCommand peer b =
     (case peer b GetSDRRepositoryInfoCommand of
        (b', Inl e) \<Rightarrow> (b', Inl e)
      | (b', Inr d) \<Rightarrow> (b', GetSDRRepositoryInfoCommand_Unmarshal d))"

text \<open>
  The body of \<open>SDRGetRecordsRepo\<close> from the label \<open>retry\<close> on (\<open>repo_retry\<close>) and
  its \<open>for\<close> loop over the record ids (\<open>repo_walk\<close>); \<open>goto retry\<close> is the call of
  \<open>repo_retry\<close>. The slice \<open>sensors\<close> is made before the label, so it is an argument
  of both. At the head of every iteration \<open>header\<close> is nil (it is declared after the
  label and reset at the end of the loop body), so the header is fetched every time.
  A nil \<open>filter\<close> is \<open>None\<close>. The first argument bounds the number of steps.
\<close>

fun repo_retry ::
  "nat \<Rightarrow> 'b peer \<Rightarrow> (uint16 \<Rightarrow> byte \<Rightarrow> bool) option \<Rightarrow> SDR list \<Rightarrow> byte \<Rightarrow> 'b
     \<Rightarrow> (byte \<times> 'b \<times> (error + SDR list)) option"
and repo_walk ::
  "nat \<Rightarrow> 'b peer \<Rightarrow> (uint16 \<Rightarrow> byte \<Rightarrow> bool) option \<Rightarrow> uint16 \<Rightarrow> uint16 \<Rightarrow> SDR list \<Rightarrow> byte \<Rightarrow> 'b
     \<Rightarrow> (byte \<times> 'b \<times> (error + SDR list)) option" where
  "repo_retry 0 peer filt sensors rb b = None"
| "repo_retry (Suc fuel) peer filt sensors rb b =
     (case Execute_ReserveSDRRepositoryCommand peer b of
        (b', Inl e) \<Rightarrow> Some (rb, b', Inl e)
      | (b', Inr reservation) \<Rightarrow> repo_walk fuel peer filt reservation sdrFirstID sensors rb b')"
| "repo_walk 0 peer filt reservation recordID sensors rb b = None"
| "repo_walk (Suc fuel) peer filt reservation recordID sensors rb b =
     (if recordID = sdrLastID then Some (rb, b, Inr sensors)
      else case sdrGetRecordHeaderAndNextID peer b reservation recordID of
             (b1, Inl e) \<Rightarrow>
               (if e = CommandError CompletionReservationCancelled
                then repo_retry fuel peer filt sensors rb b1
                else Some (rb, b1, Inl e))
           | (b1, Inr (header, nextID)) \<Rightarrow>
               (if (case filt of None \<Rightarrow> True
                    | Some f \<Rightarrow> f (RecordID header) (RecordType header))
                then (case sdrGetRecord fuel peer reservation header rb b1 of
                        None \<Rightarrow> None
                      | Some (rb2, b2, Inl e) \<Rightarrow>
                          (if e = CommandError CompletionReservationCancelled
                           then repo_retry fuel peer filt sensors rb2 b2
                           else Some (rb2, b2, Inl e))
                      | Some (rb2, b2, Inr record) \<Rightarrow>
                          repo_walk fuel peer filt reservation nextID (sensors @ [record]) rb2 b2)
                else repo_walk fuel peer filt reservation nextID sensors rb b1))"

definition SDRGetRecordsRepo ::
  "nat \<Rightarrow> 'b peer \<Rightarrow> (uint16 \<Rightarrow> byte \<Rightarrow> bool) option \<Rightarrow> byte \<Rightarrow> 'b
     \<Rightarrow> (byte \<times> 'b \<times> (error + SDR list)) option" where
  "SDRGetRecordsRepo fuel peer filt rb b =
     (case Execute_GetSDRRepositoryInfoCommand peer b of
        (b', Inl e) \<Rightarrow> Some (rb, b', Inl e)
      | (b', Inr (v, RecordCount)) \<Rightarrow>
          (if v \<noteq> 0x01 \<and> v \<noteq> 0x51 \<and> v \<noteq> 0x02
           then Some (rb, b', Inl MessageError)
           else if RecordCount = 0 then Some (rb, b', Inl MessageError)
           else repo_retry fuel peer filt [] rb b'))"

section \<open>sel.go: retrieval of SEL entries\<close>

definition selRecordSize :: nat where "selRecordSize = 16"



text \<open>
  A SEL record with its 16 bytes \<open>Data()\<close>, of which the decoded fields are
  functions; \<open>ID()\<close> is the little-endian word of the first two.
\<close>

datatype SELRecord =
    SELEventRecord "byte list"
  | SELTimestampedOEMRecord "byte list"
  | SELNonTimestampedOEMRecord "byte list"



text \<open>The three \<open>Unmarshal\<close> methods of the SEL records check the same size.\<close>

definition SELRecord_Unmarshal ::
  "(byte list \<Rightarrow> SELRecord) \<Rightarrow> byte list \<Rightarrow> error + SELRecord" where
  "SELRecord_Unmarshal mk buf =
     (if length buf < selRecordSize then Inl MessageError
      else Inr (mk (subslice 0 selRecordSize buf)))"






section \<open>Session of IPMI v2.0\<close>

text \<open>
  The mutable fields of \<open>sessionV2_0\<close>. The connection is \<open>None\<close> for nil and
  \<open>Some c\<close> for the open socket \<open>c\<close>; a nil key is \<open>[]\<close>.
\<close>

record sessionV2_0 =
  conn :: "nat option"
  id' :: uint32
  sequence :: uint32
  rqSeq :: byte
  k1 :: "byte list"
  k2 :: "byte list"

definition newSessionV2_0 :: sessionV2_0 where
  "newSessionV2_0 = \<lparr> conn = None, id' = 0, sequence = 0, rqSeq = 0, k1 = [], k2 = [] \<rparr>"

definition ActiveSession :: "sessionV2_0 \<Rightarrow> bool" where
  "ActiveSession s = (id' s > 0)"

definition MaxUint32 :: uint32 where
  "MaxUint32 = 0xffffffff"

text \<open>\<open>NextSequence\<close> and \<open>NextRqSeq\<close> return their result and the updated session.\<close>

definition NextSequence :: "sessionV2_0 \<Rightarrow> uint32 \<times> sessionV2_0" where
  "NextSequence s =
     (let s' = (if ActiveSession s
                then (if sequence s = MaxUint32 then s\<lparr>sequence := 1\<rparr>
                      else s\<lparr>sequence := sequence s + 1\<rparr>)
                else s)
      in (sequence s', s'))"

definition NextRqSeq :: "sessionV2_0 \<Rightarrow> byte \<times> sessionV2_0" where
  "NextRqSeq s =
     (let n = rqSeq s;
          s1 = s\<lparr>rqSeq := rqSeq s + 1\<rparr>;
          s2 = (if rqSeq s1 \<ge> 64 then s1\<lparr>rqSeq := 0\<rparr> else s1)
      in (push_bit 2 n, s2))"

text \<open>
  \<open>Close\<close>. Its two calls that reach the network are parameters: \<open>Execute s cmd\<close> is
  \<open>s.Execute(cmd)\<close>, the exchange of the command with the managed system, which
  returns the error (if any) and the session with its counters advanced;
  \<open>conn_Close c\<close> is \<open>c.Close()\<close> of the socket.
\<close>

definition Close ::
  "(sessionV2_0 \<Rightarrow> command \<Rightarrow> error option \<times> sessionV2_0) \<Rightarrow> (nat \<Rightarrow> error option)
     \<Rightarrow> sessionV2_0 \<Rightarrow> error option \<times> sessionV2_0" where
  "Close Execute conn_Close s =
     (case (if ActiveSession s
            then (case Execute s (closeSessionCommand (id' s)) of
                    (Some e, s1) \<Rightarrow> (Some e, s1)
                  | (None, s1) \<Rightarrow>
                      (None, s1\<lparr>id' := 0, sequence := 0, rqSeq := 0, k1 := [], k2 := []\<rparr>))
            else (None, s)) of
        (Some e, s2) \<Rightarrow> (Some e, s2)
      | (None, s2) \<Rightarrow>
          (case conn s2 of
             None \<Rightarrow> (None, s2)
           | Some c \<Rightarrow>
               (case conn_Close c of
                  Some e \<Rightarrow> (Some e, s2)
                | None \<Rightarrow> (None, s2\<lparr>conn := None\<rparr>))))"

text \<open>
  The states of a session: every place of the package that writes a field of
  \<open>sessionV2_0\<close> is a rule. \<open>Open\<close> dials and runs \<open>openSession\<close> only on a nil
  connection, and \<open>openSession\<close> ends by setting the id and the keys; the handshake
  before it calls \<open>NextSequence\<close>. \<open>Close\<close> clears the session fields after a
  Close-Session command that succeeded, and sets the connection to nil only after
  that or on a session that is not active.
\<close>

inductive reachable :: "sessionV2_0 \<Rightarrow> bool" where
  new: "reachable newSessionV2_0"
| open_dial: "reachable s \<Longrightarrow> conn s = None \<Longrightarrow> reachable (s\<lparr>conn := Some c\<rparr>)"
| open_session: "reachable s \<Longrightarrow> conn s = None
    \<Longrightarrow> reachable (s\<lparr>conn := Some c, id' := m, k1 := a, k2 := b\<rparr>)"
| next_sequence: "reachable s \<Longrightarrow> reachable (snd (NextSequence s))"
| next_rqseq: "reachable s \<Longrightarrow> reachable (snd (NextRqSeq s))"
| close_cleared: "reachable s
    \<Longrightarrow> reachable (s\<lparr>id' := 0, sequence := 0, rqSeq := 0, k1 := [], k2 := []\<rparr>)"
| close_conn: "reachable s \<Longrightarrow> \<not> ActiveSession s \<Longrightarrow> reachable (s\<lparr>conn := None\<rparr>)"

section \<open>Assumption on the block cipher\<close>



section \<open>A scripted managed system for the SDR walk\<close>

text \<open>
  A peer as in the test of the restart: a repository of two records (ids 1 and 2, of
  the Compact Sensor type, with bodies of 3 and 2 bytes) that answers the third Get SDR
  it receives with the completion code \<open>cc\<close>. Its state is the number of Get SDR
  commands it has served, and each reservation id is one more than that number.
\<close>

definition mock_sdr_repo :: "uint16 \<Rightarrow> byte list \<times> uint16" where
  "mock_sdr_repo rid =
     (if rid = 0 \<or> rid = 1 then ([0x01, 0x00, 0x51, 0x02, 0x03, 0xaa, 0xbb, 0xcc], 0x0002)
      else ([0x02, 0x00, 0x51, 0x02, 0x02, 0xdd, 0xee], 0xffff))"

definition mock_bmc :: "byte \<Rightarrow> nat peer" where
  "mock_bmc cc k cmd =
     (case cmd of
        GetSDRRepositoryInfoCommand \<Rightarrow> (k, Inr ([0x51, 0x02, 0x00] @ replicate 11 0))
      | ReserveSDRRepositoryCommand \<Rightarrow> (k, Inr [of_nat k + 1, 0x00])
      | GetSDRCommand reservation rid off n \<Rightarrow>
          (Suc k,
           if Suc k = 3 then Inl (CommandError cc)
           else (case mock_sdr_repo rid of
                   (bytes, next) \<Rightarrow>
                     Inr ([ucast next, ucast (drop_bit 8 next)]
                          @ take (unat n) (drop (unat off) bytes))))
      | _ \<Rightarrow> (k, Inl (CommandError 0xc1)))"

definition mock_record1 :: SDR where
  "mock_record1 =
     sdrRaw \<lparr> RecordID = 1, SDRVersion = 0x51, RecordType = 0x02, RemainingBytes = 3 \<rparr>
       [0xaa, 0xbb, 0xcc]"

definition mock_record2 :: SDR where
  "mock_record2 =
     sdrRaw \<lparr> RecordID = 2, SDRVersion = 0x51, RecordType = 0x02, RemainingBytes = 2 \<rparr>
       [0xdd, 0xee]"

section \<open>The chunk sizes of the SDR read, and a peer with a read limit\<close>

text \<open>
  The value of \<open>c.sdrReadingBytes\<close> after \<open>k\<close> answers Request data field exceeded
  to \<open>sdrGetRecord\<close>, which is the only code that writes the field. A client starts
  with \<open>sdrDefaultReadBytes\<close>; the struct and its initialisation are not among the
  source files, the constant is.
\<close>

fun reading_bytes_after :: "nat \<Rightarrow> byte" where
  "reading_bytes_after 0 = sdrDefaultReadBytes"
| "reading_bytes_after (Suc k) =
     (if reading_bytes_after k > of_nat sdrHeaderSize
      then shrink_reading_bytes (reading_bytes_after k) else reading_bytes_after k)"

text \<open>
  A peer as in the test of the backoff: one record with a body of 40 bytes, and the
  completion code 0xCA for every Get SDR that asks for more than \<open>limit\<close> bytes.
\<close>

definition mock_long_record :: "byte list" where
  "mock_long_record = [0x01, 0x00, 0x51, 0x02, 0x28] @ map of_nat [0..<40]"

definition mock_limited_bmc :: "byte \<Rightarrow> unit peer" where
  "mock_limited_bmc limit u cmd =
     (case cmd of
        GetSDRCommand reservation rid off n \<Rightarrow>
          (u, if n > limit then Inl (CommandError 0xca)
              else Inr ([0x02, 0x00] @ take (unat n) (drop (unat off) mock_long_record)))
      | _ \<Rightarrow> (u, Inl (CommandError 0xc1)))"

definition mock_long_header :: sdrHeader where
  "mock_long_header =
     \<lparr> RecordID = 1, SDRVersion = 0x51, RecordType = 0x02, RemainingBytes = 0x28 \<rparr>"

section \<open>A scripted managed system for the SEL window\<close>




section \<open>Properties: the checksum law\<close>

lemma checksum_loop_sum: "checksum_loop c xs = c + sum_list xs"
  by (induction xs arbitrary: c) (simp_all add: add.assoc)

lemma checksum_sum: "checksum buf + sum_list buf = 0"
  by (simp add: checksum_def checksum_loop_sum)

lemma unat_sum_list: "unat (sum_list (xs :: byte list)) = sum_list (map unat xs) mod 256"
proof (induction xs)
  case Nil
  show ?case by simp
next
  case (Cons x xs)
  have "unat (x + sum_list xs) = (unat x + unat (sum_list xs)) mod 256"
    by (simp add: unat_word_ariths)
  also have "\<dots> = (unat x + sum_list (map unat xs) mod 256) mod 256"
    using Cons by simp
  also have "\<dots> = (unat x + sum_list (map unat xs)) mod 256"
    by (simp add: mod_add_right_eq)
  finally show ?case by simp
qed

lemma checksum_nat: "(unat (checksum buf) + sum_list (map unat buf)) mod 256 = 0"
proof -
  have "unat (checksum buf + sum_list buf) = 0"
    by (simp add: checksum_sum)
  then have "(unat (checksum buf) + unat (sum_list buf)) mod 256 = 0"
    by (simp add: unat_word_ariths)
  then have "(unat (checksum buf) + sum_list (map unat buf) mod 256) mod 256 = 0"
    by (simp add: unat_sum_list)
  then show ?thesis
    by (simp add: mod_add_right_eq)
qed

lemma checksum_eq_iff: "(checksum xs = c) = (c + sum_list xs = 0)"
proof -
  have "checksum xs = - sum_list xs"
    by (simp add: checksum_def checksum_loop_sum)
  then show ?thesis
    by (metis add.commute add.right_inverse add_left_cancel neg_eq_iff_add_eq_0 checksum_sum)
qed

lemma subslice_0_2: "2 \<le> length buf \<Longrightarrow> subslice 0 2 buf = [buf ! 0, buf ! 1]"
  by (cases buf; cases "tl buf") (auto simp: subslice_def)

text \<open>
  Claim C6. The checksum of a byte sequence is the two's complement of the sum of its
  bytes: checksum and sum add up to 0 modulo 256 (as bytes, and as numbers), in
  particular for a header of two bytes. An IPMI response of at least the minimal size
  whose third byte does not make the first three bytes sum to 0, or whose last byte
  does not make the bytes from the fourth on sum to 0, is refused with a message error;
  one that satisfies both equations is accepted.
\<close>

theorem C6_checksum_law:
  "checksum buf + sum_list buf = 0
   \<and> (unat (checksum buf) + sum_list (map unat buf)) mod 256 = 0
   \<and> checksum [a, b] + a + b = 0
   \<and> (ipmiResponseMessageMinSize \<le> length buf \<longrightarrow>
        (buf ! 2 + buf ! 0 + buf ! 1 \<noteq> 0
         \<or> buf ! (length buf - 1) + sum_list (subslice 3 (length buf - 1) buf) \<noteq> 0) \<longrightarrow>
        ipmiResponseMessage_Unmarshal buf = Inl MessageError)
   \<and> (ipmiResponseMessageMinSize \<le> length buf \<longrightarrow>
        buf ! 2 + buf ! 0 + buf ! 1 = 0 \<longrightarrow>
        buf ! (length buf - 1) + sum_list (subslice 3 (length buf - 1) buf) = 0 \<longrightarrow>
        (\<exists>m. ipmiResponseMessage_Unmarshal buf = Inr (m, [])))"
proof -
  have law: "checksum [a, b] + a + b = 0"
    using checksum_sum [of "[a, b]"] by (simp add: add.assoc)
  have rej: "ipmiResponseMessage_Unmarshal buf = Inl MessageError"
    if len: "ipmiResponseMessageMinSize \<le> length buf"
    and bad: "buf ! 2 + buf ! 0 + buf ! 1 \<noteq> 0
         \<or> buf ! (length buf - 1) + sum_list (subslice 3 (length buf - 1) buf) \<noteq> 0"
  proof -
    from len have l2: "2 \<le> length buf" by (simp add: ipmiResponseMessageMinSize_def)
    have c1: "(checksum (subslice 0 2 buf) = buf ! 2) = (buf ! 2 + buf ! 0 + buf ! 1 = 0)"
      by (simp add: subslice_0_2 [OF l2] checksum_eq_iff add.assoc)
    show ?thesis
      using bad len c1
      by (auto simp: ipmiResponseMessage_Unmarshal_def checksum_eq_iff)
  qed
  have acc: "\<exists>m. ipmiResponseMessage_Unmarshal buf = Inr (m, [])"
    if len: "ipmiResponseMessageMinSize \<le> length buf"
    and ok1: "buf ! 2 + buf ! 0 + buf ! 1 = 0"
    and ok2: "buf ! (length buf - 1) + sum_list (subslice 3 (length buf - 1) buf) = 0"
  proof -
    from len have l2: "2 \<le> length buf" by (simp add: ipmiResponseMessageMinSize_def)
    have c1: "(checksum (subslice 0 2 buf) = buf ! 2) = (buf ! 2 + buf ! 0 + buf ! 1 = 0)"
      by (simp add: subslice_0_2 [OF l2] checksum_eq_iff add.assoc)
    show ?thesis
      using len ok1 ok2 c1
      by (simp add: ipmiResponseMessage_Unmarshal_def checksum_eq_iff)
  qed
  show ?thesis
    using checksum_sum checksum_nat law rej acc by blast
qed

text \<open>
  The law at a response to Get Device ID with no data, once intact, once with the
  first and once with the second checksum off by one.
\<close>

theorem C6_checksum_law_witness:
  "checksum [0x20, 0x18, 0xc8, 0x81, 0x04, 0x01, 0x00, 0x7a]
     + sum_list [0x20, 0x18, 0xc8, 0x81, 0x04, 0x01, 0x00, 0x7a] = 0
   \<and> checksum [0x20, 0x18] = 0xc8
   \<and> ipmiResponseMessage_Unmarshal [0x20, 0x18, 0xc9, 0x81, 0x04, 0x01, 0x00, 0x7a]
       = Inl MessageError
   \<and> ipmiResponseMessage_Unmarshal [0x20, 0x18, 0xc8, 0x81, 0x04, 0x01, 0x00, 0x7b]
       = Inl MessageError
   \<and> (\<exists>m. ipmiResponseMessage_Unmarshal [0x20, 0x18, 0xc8, 0x81, 0x04, 0x01, 0x00, 0x7a]
       = Inr (m, []))"
  using C6_checksum_law [of "[0x20, 0x18, 0xc8, 0x81, 0x04, 0x01, 0x00, 0x7a]" "0x20" "0x18"]
    C6_checksum_law [of "[0x20, 0x18, 0xc9, 0x81, 0x04, 0x01, 0x00, 0x7a]" "0x20" "0x18"]
    C6_checksum_law [of "[0x20, 0x18, 0xc8, 0x81, 0x04, 0x01, 0x00, 0x7b]" "0x20" "0x18"]
  by (simp add: ipmiResponseMessageMinSize_def subslice_def checksum_def)

section \<open>Properties: the session sequence counter\<close>

lemma ActiveSession_iff: "ActiveSession s = (id' s \<noteq> 0)"
  by (simp add: ActiveSession_def word_greater_zero_iff)

text \<open>
  In every state of a session, a session that is not active has the sequence counter 0,
  and a session without a connection is not active.
\<close>

lemma reachable_invariant:
  "reachable s \<Longrightarrow> (id' s = 0 \<longrightarrow> sequence s = 0) \<and> (conn s = None \<longrightarrow> id' s = 0)"
proof (induction rule: reachable.induct)
  case new
  show ?case by (simp add: newSessionV2_0_def)
next
  case (open_dial s c)
  then show ?case by simp
next
  case (open_session s c m a b)
  then show ?case by simp
next
  case (next_sequence s)
  then show ?case by (simp add: NextSequence_def ActiveSession_iff Let_def)
next
  case (next_rqseq s)
  then show ?case by (simp add: NextRqSeq_def Let_def)
next
  case (close_cleared s)
  then show ?case by simp
next
  case (close_conn s)
  then show ?case by (simp add: ActiveSession_iff)
qed

text \<open>\<open>Close\<close> stays within the states of a session when \<open>Execute\<close> does.\<close>

lemma Close_preserves_reachable:
  assumes "reachable s" and "\<And>cmd. reachable (snd (Execute s cmd))"
  shows "reachable (snd (Close Execute conn_Close s))"
proof (cases "ActiveSession s")
  case False
  show ?thesis
  proof (cases "conn s")
    case None
    with False assms(1) show ?thesis by (simp add: Close_def)
  next
    case (Some c)
    with False assms(1) reachable.close_conn [OF assms(1) False] show ?thesis
      by (cases "conn_Close c") (simp_all add: Close_def)
  qed
next
  case True
  obtain r s1 where ex: "Execute s (closeSessionCommand (id' s)) = (r, s1)"
    by (cases "Execute s (closeSessionCommand (id' s))")
  have r1: "reachable s1" using assms(2) [of "closeSessionCommand (id' s)"] ex by simp
  show ?thesis
  proof (cases r)
    case (Some e)
    with True ex r1 show ?thesis by (simp add: Close_def)
  next
    case None
    let ?s2 = "s1\<lparr>id' := 0, sequence := 0, rqSeq := 0, k1 := [], k2 := []\<rparr>"
    have r2: "reachable ?s2" by (rule reachable.close_cleared [OF r1])
    have na: "\<not> ActiveSession ?s2" by (simp add: ActiveSession_def)
    show ?thesis
    proof (cases "conn s1")
      case None
      with True ex \<open>r = None\<close> r2 show ?thesis by (simp add: Close_def)
    next
      case (Some c)
      with True ex \<open>r = None\<close> r2 reachable.close_conn [OF r2 na] show ?thesis
        by (cases "conn_Close c") (simp_all add: Close_def)
    qed
  qed
qed

text \<open>
  Claim C7, as it is stated, fails for \<open>NextSequence\<close> on its own: on a session that
  is not active it returns the stored counter, whatever that is. With the id 0 and the
  counter at the largest 32-bit value it returns that value, not 0.
\<close>

theorem C7_counterexample:
  "\<not> ActiveSession \<lparr> conn = None, id' = 0, sequence = 0xffffffff, rqSeq = 0,
                       k1 = [], k2 = [] \<rparr>
   \<and> NextSequence \<lparr> conn = None, id' = 0, sequence = 0xffffffff, rqSeq = 0,
                     k1 = [], k2 = [] \<rparr>
       = (0xffffffff, \<lparr> conn = None, id' = 0, sequence = 0xffffffff, rqSeq = 0,
                        k1 = [], k2 = [] \<rparr>)
   \<and> (0xffffffff :: uint32) \<noteq> 0"
  by (simp add: NextSequence_def ActiveSession_def)

text \<open>
  Claim C7, amended. On an active session \<open>NextSequence\<close> never returns 0: from the
  largest 32-bit value it returns 1, from any other value the value plus one, and it
  stores what it returns. On a session that is not active it returns the stored
  counter and changes nothing. That counter is 0, so that 0 is returned, in every
  state that the writes of the package to the session fields produce from a new
  session: the dial and the end of \<open>openSession\<close> in \<open>Open\<close>, \<open>NextSequence\<close>,
  \<open>NextRqSeq\<close> and the two writes of \<open>Close\<close>.
\<close>

theorem C7_next_sequence:
  "(ActiveSession s \<longrightarrow>
      fst (NextSequence s) \<noteq> 0
      \<and> (sequence s = MaxUint32 \<longrightarrow> fst (NextSequence s) = 1)
      \<and> (sequence s \<noteq> MaxUint32 \<longrightarrow> fst (NextSequence s) = sequence s + 1)
      \<and> sequence (snd (NextSequence s)) = fst (NextSequence s))
   \<and> (\<not> ActiveSession s \<longrightarrow>
        fst (NextSequence s) = sequence s \<and> snd (NextSequence s) = s)
   \<and> (reachable s \<longrightarrow> \<not> ActiveSession s \<longrightarrow>
        fst (NextSequence s) = 0 \<and> snd (NextSequence s) = s)"
proof -
  have wrap: "sequence s + 1 \<noteq> 0" if "sequence s \<noteq> MaxUint32"
  proof
    assume "sequence s + 1 = 0"
    then have "sequence s = - 1" by (simp add: eq_neg_iff_add_eq_0)
    with that show False by (simp add: MaxUint32_def)
  qed
  have inactive: "fst (NextSequence s) = 0" if "reachable s" "\<not> ActiveSession s"
    using reachable_invariant [OF that(1)] that(2)
    by (simp add: NextSequence_def ActiveSession_iff)
  show ?thesis
    using wrap inactive by (auto simp: NextSequence_def Let_def)
qed

text \<open>
  A session that was opened with the id 7, sent one message and was then cleared by
  \<open>Close\<close> while its socket stayed open is a state of the package.
\<close>

lemma reachable_cleared_session:
  "reachable \<lparr> conn = Some 1, id' = 0, sequence = 0, rqSeq = 0, k1 = [], k2 = [] \<rparr>"
proof -
  have "reachable (newSessionV2_0\<lparr>conn := Some 1, id' := 7, k1 := [1], k2 := [2]\<rparr>)"
    by (rule reachable.open_session [OF reachable.new]) (simp add: newSessionV2_0_def)
  then have "reachable \<lparr> conn = Some 1, id' = 7, sequence = 0, rqSeq = 0, k1 = [1], k2 = [2] \<rparr>"
    by (simp add: newSessionV2_0_def)
  from reachable.next_sequence [OF this]
  have "reachable \<lparr> conn = Some 1, id' = 7, sequence = 1, rqSeq = 0, k1 = [1], k2 = [2] \<rparr>"
    by (simp add: NextSequence_def ActiveSession_def MaxUint32_def)
  from reachable.next_rqseq [OF this]
  have "reachable \<lparr> conn = Some 1, id' = 7, sequence = 1, rqSeq = 1, k1 = [1], k2 = [2] \<rparr>"
    by (simp add: NextRqSeq_def Let_def word_le_nat_alt)
  from reachable.close_cleared [OF this] show ?thesis
    by simp
qed

text \<open>A session whose managed system assigned the id 0 is open, but not active.\<close>

lemma reachable_zero_id_session:
  "reachable \<lparr> conn = Some 1, id' = 0, sequence = 0, rqSeq = 0, k1 = [1], k2 = [2] \<rparr>"
proof -
  have "reachable (newSessionV2_0\<lparr>conn := Some 1, id' := 0, k1 := [1], k2 := [2]\<rparr>)"
    by (rule reachable.open_session [OF reachable.new]) (simp add: newSessionV2_0_def)
  then show ?thesis by (simp add: newSessionV2_0_def)
qed

theorem C7_next_sequence_witness:
  "fst (NextSequence \<lparr> conn = Some 0, id' = 7, sequence = 0xffffffff, rqSeq = 0,
                       k1 = [], k2 = [] \<rparr>) = 1
   \<and> fst (NextSequence \<lparr> conn = Some 0, id' = 7, sequence = 41, rqSeq = 0,
                         k1 = [], k2 = [] \<rparr>) = 42
   \<and> reachable newSessionV2_0
   \<and> fst (NextSequence newSessionV2_0) = 0
   \<and> snd (NextSequence newSessionV2_0) = newSessionV2_0
   \<and> reachable \<lparr> conn = Some 1, id' = 0, sequence = 0, rqSeq = 0, k1 = [], k2 = [] \<rparr>
   \<and> fst (NextSequence \<lparr> conn = Some 1, id' = 0, sequence = 0, rqSeq = 0,
                         k1 = [], k2 = [] \<rparr>) = 0
   \<and> reachable \<lparr> conn = Some 1, id' = 0, sequence = 0, rqSeq = 0, k1 = [1], k2 = [2] \<rparr>
   \<and> fst (NextSequence \<lparr> conn = Some 1, id' = 0, sequence = 0, rqSeq = 0,
                         k1 = [1], k2 = [2] \<rparr>) = 0"
  using C7_next_sequence [of "\<lparr> conn = Some 0, id' = 7, sequence = 0xffffffff, rqSeq = 0,
                                k1 = [], k2 = [] \<rparr>"]
    C7_next_sequence [of "\<lparr> conn = Some 0, id' = 7, sequence = 41, rqSeq = 0,
                            k1 = [], k2 = [] \<rparr>"]
    C7_next_sequence [of newSessionV2_0] reachable.new
    C7_next_sequence [of "\<lparr> conn = Some 1, id' = 0, sequence = 0, rqSeq = 0,
                            k1 = [], k2 = [] \<rparr>"]
    C7_next_sequence [of "\<lparr> conn = Some 1, id' = 0, sequence = 0, rqSeq = 0,
                            k1 = [1], k2 = [2] \<rparr>"]
    reachable_cleared_session reachable_zero_id_session
  by (simp add: ActiveSession_def MaxUint32_def newSessionV2_0_def)

section \<open>Properties: truncated buffers\<close>

lemma length_zero_extend: "length buf < sz \<Longrightarrow> length (zero_extend sz buf) = sz"
  by (simp add: zero_extend_def)

text \<open>
  Claim C3, as it is stated, fails: an empty Open Session Response and RAKP 2 and
  RAKP 4 payloads of two bytes, all shorter than their fixed sizes, are unmarshalled
  without an error, as messages of zero bytes (status code 0 is ``no errors'').
\<close>

theorem C3_counterexample:
  "length ([] :: byte list) < openSessionResponseSize
   \<and> openSessionResponse_Unmarshal [] =
       Inr (\<lparr> osr_MessageTag = 0, osr_StatusCode = 0, osr_PrivilegeLevel = 0, osr_ConsoleID = 0,
               osr_ManagedID = 0, osr_CipherSuite = \<lparr> Auth = 0, Integrity = 0, Crypt = 0 \<rparr> \<rparr>, [])
   \<and> length [0x00, 0x00 :: byte] < rakpMessage2Size
   \<and> rakpMessage2_Unmarshal [0x00, 0x00] =
       Inr (\<lparr> r2_MessageTag = 0, r2_StatusCode = 0, r2_ConsoleID = 0,
               ManagedRand = replicate 16 0, ManagedGUID = replicate 16 0,
               KeyExchangeAuthCode = replicate 20 0 \<rparr>, [])
   \<and> length [0x00, 0x00 :: byte] < rakpMessage4Size + integrityCheckSize
   \<and> rakpMessage4_Unmarshal [0x00, 0x00] =
       Inr (\<lparr> r4_MessageTag = 0, r4_StatusCode = 0, r4_ConsoleID = 0,
               IntegrityCheckValue = replicate 12 0 \<rparr>, [])"
  by (simp add: openSessionResponse_Unmarshal_def rakpMessage2_Unmarshal_def
      rakpMessage4_Unmarshal_def openSessionResponseSize_def rakpMessage2Size_def
      rakpMessage4Size_def integrityCheckSize_def authCodeSize_def zero_extend_def
      LittleEndian_Uint32_def copy_bytes_def subslice_def Let_def nth_append numeral_nat
      nth_Cons')

text \<open>
  Claim C3, amended. Handed a buffer shorter than the fixed size of its message, the
  \<open>Unmarshal\<close> method of each of the following returns a message error: the RMCP
  header, the ASF header, the Pong body, the session header of v1.5 (10 bytes, 26 with
  an authentication code), the session header of v2.0, the IPMI response message, the
  responses of the commands Get SDR Repository Info, Reserve SDR Repository, Get SDR,
  Get SEL Info, Reserve SEL and Get SEL Entry, the SDR header and the three SEL
  records. The \<open>Unmarshal\<close> methods of the Open Session Response, of RAKP 2 and of
  RAKP 4 are the exception: they extend a short buffer with zero bytes to the fixed
  size (36, 40 and 20 bytes), decode that and return no error. The statement is about
  each method on the buffer it is handed.
\<close>

theorem C3_truncated_buffers:
  "(length buf < rmcpHeaderSize \<longrightarrow> rmcpHeader_Unmarshal buf = Inl MessageError)
   \<and> (length buf < asfHeaderSize \<longrightarrow> asfHeader_Unmarshal buf = Inl MessageError)
   \<and> (length buf < pongBodySize \<longrightarrow> pongMessage_Unmarshal buf = Inl MessageError)
   \<and> (length buf < sessionHeaderV1_5Size \<longrightarrow>
        sessionHeaderV1_5_Unmarshal buf = Inl MessageError)
   \<and> (length buf < sessionHeaderV1_5SizeWithAuth \<longrightarrow> length buf \<ge> 1 \<longrightarrow>
        buf ! 0 \<noteq> authTypeNone \<longrightarrow> sessionHeaderV1_5_Unmarshal buf = Inl MessageError)
   \<and> (length buf < sessionHeaderV2_0Size \<longrightarrow>
        sessionHeaderV2_0_Unmarshal buf = Inl MessageError)
   \<and> (length buf < ipmiResponseMessageMinSize \<longrightarrow>
        ipmiResponseMessage_Unmarshal buf = Inl MessageError)
   \<and> (length buf < 14 \<longrightarrow> GetSDRRepositoryInfoCommand_Unmarshal buf = Inl MessageError)
   \<and> (length buf < 2 \<longrightarrow> ReserveSDRRepositoryCommand_Unmarshal buf = Inl MessageError)
   \<and> (length buf < 2 \<longrightarrow> GetSDRCommand_Unmarshal ReadBytes buf = Inl MessageError)
   \<and> (length buf < 14 \<longrightarrow> GetSELInfoCommand_Unmarshal buf = Inl MessageError)
   \<and> (length buf < 2 \<longrightarrow> ReserveSELCommand_Unmarshal buf = Inl MessageError)
   \<and> (length buf < sdrHeaderSize \<longrightarrow> sdrHeader_Unmarshal buf = Inl MessageError)
   \<and> (length buf < selRecordSize \<longrightarrow> SELRecord_Unmarshal mk buf = Inl MessageError)
   \<and> (length buf < openSessionResponseSize \<longrightarrow>
        openSessionResponse_Unmarshal buf =
          openSessionResponse_Unmarshal (zero_extend openSessionResponseSize buf)
        \<and> (\<exists>r. openSessionResponse_Unmarshal buf = Inr (r, [])))
   \<and> (length buf < rakpMessage2Size \<longrightarrow>
        rakpMessage2_Unmarshal buf = rakpMessage2_Unmarshal (zero_extend rakpMessage2Size buf)
        \<and> (\<exists>r. rakpMessage2_Unmarshal buf = Inr (r, [])))
   \<and> (length buf < rakpMessage4Size + integrityCheckSize \<longrightarrow>
        rakpMessage4_Unmarshal buf =
          rakpMessage4_Unmarshal (zero_extend (rakpMessage4Size + integrityCheckSize) buf)
        \<and> (\<exists>r. rakpMessage4_Unmarshal buf = Inr (r, [])))"
proof -
  have v15: "sessionHeaderV1_5_Unmarshal buf = Inl MessageError"
    if "length buf < sessionHeaderV1_5SizeWithAuth" "buf ! 0 \<noteq> authTypeNone"
    using that by (simp add: sessionHeaderV1_5_Unmarshal_def Let_def)
  have osr: "openSessionResponse_Unmarshal buf =
          openSessionResponse_Unmarshal (zero_extend openSessionResponseSize buf)
        \<and> (\<exists>r. openSessionResponse_Unmarshal buf = Inr (r, []))"
    if "length buf < openSessionResponseSize"
    using that length_zero_extend [OF that]
    by (simp add: openSessionResponse_Unmarshal_def Let_def)
  have r2: "rakpMessage2_Unmarshal buf = rakpMessage2_Unmarshal (zero_extend rakpMessage2Size buf)
        \<and> (\<exists>r. rakpMessage2_Unmarshal buf = Inr (r, []))"
    if "length buf < rakpMessage2Size"
    using that length_zero_extend [OF that]
    by (simp add: rakpMessage2_Unmarshal_def Let_def)
  have r4: "rakpMessage4_Unmarshal buf =
          rakpMessage4_Unmarshal (zero_extend (rakpMessage4Size + integrityCheckSize) buf)
        \<and> (\<exists>r. rakpMessage4_Unmarshal buf = Inr (r, []))"
    if "length buf < rakpMessage4Size + integrityCheckSize"
    using that length_zero_extend [OF that]
    by (simp add: rakpMessage4_Unmarshal_def Let_def)
  have a1: "length buf < rmcpHeaderSize \<Longrightarrow> rmcpHeader_Unmarshal buf = Inl MessageError"
    by (simp add: rmcpHeader_Unmarshal_def)
  have a2: "length buf < asfHeaderSize \<Longrightarrow> asfHeader_Unmarshal buf = Inl MessageError"
    by (simp add: asfHeader_Unmarshal_def)
  have a3: "length buf < pongBodySize \<Longrightarrow> pongMessage_Unmarshal buf = Inl MessageError"
    by (simp add: pongMessage_Unmarshal_def)
  have a4: "length buf < sessionHeaderV1_5Size \<Longrightarrow>
      sessionHeaderV1_5_Unmarshal buf = Inl MessageError"
    by (simp add: sessionHeaderV1_5_Unmarshal_def)
  have a5: "length buf < sessionHeaderV2_0Size \<Longrightarrow>
      sessionHeaderV2_0_Unmarshal buf = Inl MessageError"
    by (simp add: sessionHeaderV2_0_Unmarshal_def)
  have a6: "length buf < ipmiResponseMessageMinSize \<Longrightarrow>
      ipmiResponseMessage_Unmarshal buf = Inl MessageError"
    by (simp add: ipmiResponseMessage_Unmarshal_def)
  have c1: "length buf < 14 \<Longrightarrow> GetSDRRepositoryInfoCommand_Unmarshal buf = Inl MessageError"
    by (simp add: GetSDRRepositoryInfoCommand_Unmarshal_def cmdValidateLength_def)
  have c2: "length buf < 2 \<Longrightarrow> ReserveSDRRepositoryCommand_Unmarshal buf = Inl MessageError"
    by (simp add: ReserveSDRRepositoryCommand_Unmarshal_def cmdValidateLength_def)
  have c3: "length buf < 2 \<Longrightarrow> GetSDRCommand_Unmarshal ReadBytes buf = Inl MessageError"
    by (simp add: GetSDRCommand_Unmarshal_def cmdValidateLength_def)
  have c4: "length buf < 14 \<Longrightarrow> GetSELInfoCommand_Unmarshal buf = Inl MessageError"
    by (simp add: GetSELInfoCommand_Unmarshal_def cmdValidateLength_def)
  have c5: "length buf < 2 \<Longrightarrow> ReserveSELCommand_Unmarshal buf = Inl MessageError"
    by (simp add: ReserveSELCommand_Unmarshal_def cmdValidateLength_def)
  have a8: "length buf < sdrHeaderSize \<Longrightarrow> sdrHeader_Unmarshal buf = Inl MessageError"
    by (simp add: sdrHeader_Unmarshal_def)
  have a9: "length buf < selRecordSize \<Longrightarrow> SELRecord_Unmarshal mk buf = Inl MessageError"
    by (simp add: SELRecord_Unmarshal_def)
  show ?thesis
    using a1 a2 a3 a4 a5 a6 c1 c2 c3 c4 c5 a8 a9 v15 osr r2 r4 by blast
qed

text \<open>
  The statement at a buffer of three bytes, and at one of a single byte for the
  responses whose fixed size is two.
\<close>

theorem C3_truncated_buffers_witness:
  "rmcpHeader_Unmarshal [0x06, 0x00, 0xff] = Inl MessageError
   \<and> asfHeader_Unmarshal [0x06, 0x00, 0xff] = Inl MessageError
   \<and> pongMessage_Unmarshal [0x06, 0x00, 0xff] = Inl MessageError
   \<and> sessionHeaderV1_5_Unmarshal [0x06, 0x00, 0xff] = Inl MessageError
   \<and> sessionHeaderV2_0_Unmarshal [0x06, 0x00, 0xff] = Inl MessageError
   \<and> ipmiResponseMessage_Unmarshal [0x06, 0x00, 0xff] = Inl MessageError
   \<and> GetSDRRepositoryInfoCommand_Unmarshal [0x06, 0x00, 0xff] = Inl MessageError
   \<and> GetSELInfoCommand_Unmarshal [0x06, 0x00, 0xff] = Inl MessageError
   \<and> ReserveSDRRepositoryCommand_Unmarshal [0x06] = Inl MessageError
   \<and> GetSDRCommand_Unmarshal 0xff [0x06] = Inl MessageError
   \<and> ReserveSELCommand_Unmarshal [0x06] = Inl MessageError
   \<and> sdrHeader_Unmarshal [0x06, 0x00, 0xff] = Inl MessageError
   \<and> SELRecord_Unmarshal SELEventRecord [0x06, 0x00, 0xff] = Inl MessageError
   \<and> openSessionResponse_Unmarshal [0x06, 0x00, 0xff] =
       openSessionResponse_Unmarshal ([0x06, 0x00, 0xff] @ replicate 33 0)
   \<and> rakpMessage2_Unmarshal [0x06, 0x00, 0xff] =
       rakpMessage2_Unmarshal ([0x06, 0x00, 0xff] @ replicate 37 0)
   \<and> rakpMessage4_Unmarshal [0x06, 0x00, 0xff] =
       rakpMessage4_Unmarshal ([0x06, 0x00, 0xff] @ replicate 17 0)"
  using C3_truncated_buffers [where buf = "[0x06, 0x00, 0xff]" and mk = SELEventRecord]
    C3_truncated_buffers [where buf = "[0x06]" and ReadBytes = "0xff" and mk = SELEventRecord]
  by (simp add: rmcpHeaderSize_def asfHeaderSize_def pongBodySize_def sessionHeaderV1_5Size_def
      sessionHeaderV1_5SizeWithAuth_def sessionHeaderV2_0Size_def ipmiResponseMessageMinSize_def
      sdrHeaderSize_def selRecordSize_def openSessionResponseSize_def rakpMessage2Size_def
      rakpMessage4Size_def integrityCheckSize_def authTypeNone_def zero_extend_def)

section \<open>Properties: closing a session\<close>

text \<open>
  Claim C2 on the code. When the Close-Session command fails (here: whatever error
  \<open>e\<close> \<open>Execute\<close> returns, leaving the session as it is), \<open>Close\<close> of an active
  session returns that error at once: the id, the counters and both keys are kept and
  the socket stays open, with \<open>c.Close()\<close> never called.
\<close>

theorem C2_close_keeps_session_on_error:
  "Close (\<lambda>s cmd. (Some e, s)) conn_Close
     \<lparr> conn = Some c, id' = 5, sequence = q, rqSeq = r, k1 = a, k2 = b \<rparr>
   = (Some e, \<lparr> conn = Some c, id' = 5, sequence = q, rqSeq = r, k1 = a, k2 = b \<rparr>)"
  by (simp add: Close_def ActiveSession_def)

text \<open>When the command succeeds, the session is cleared and the socket closed.\<close>

lemma Close_clears_on_success:
  "Close (\<lambda>s cmd. (None, s)) (\<lambda>c. None)
     \<lparr> conn = Some c, id' = 5, sequence = q, rqSeq = r, k1 = a, k2 = b \<rparr>
   = (None, newSessionV2_0)"
  by (simp add: Close_def ActiveSession_def newSessionV2_0_def)

section \<open>Properties: decryption of an adversarial payload\<close>

text \<open>
  Claim C10 on the code. A payload of 16 bytes, which is the IV alone, passes the
  length check; the decrypted data is then empty and reading its last byte panics.
  This holds for every block cipher, since no block is decrypted.
\<close>

theorem C10_decrypt_panics:
  "decryptPayload aes_dec (replicate 16 0) (replicate 16 0) = Inl Panic"
  by (simp add: decryptPayload_def aes_BlockSize_def)

section \<open>Properties: restart of the SDR walk\<close>

text \<open>
  Claim C1 on the code, at the scripted peer. When the third Get SDR (the header of
  the second record) fails with 0xC7, the value of \<open>CompletionReservationCancelled\<close>,
  the walk takes a new reservation and restarts at the first record, but the record
  already collected is kept: the result holds the first record twice. When it fails
  with 0xC5, the code of a cancelled reservation in the claim, there is no restart
  and the command error is returned. Without a failure (the peer past its third
  Get SDR) the result is the two records.
\<close>

theorem C1_restart_keeps_collected_records:
  "SDRGetRecordsRepo 20 (mock_bmc 0xc7) None sdrDefaultReadBytes 0
     = Some (32, 7, Inr [mock_record1, mock_record1, mock_record2])
   \<and> SDRGetRecordsRepo 20 (mock_bmc 0xc5) None sdrDefaultReadBytes 0
     = Some (32, 3, Inl (CommandError 0xc5))
   \<and> SDRGetRecordsRepo 20 (mock_bmc 0xc7) None sdrDefaultReadBytes 3
     = Some (32, 7, Inr [mock_record1, mock_record2])
   \<and> CompletionReservationCancelled = 0xc7"
  by code_simp

section \<open>Properties: the AES pad round trip\<close>



lemma fill_pad_length: "length (fill_pad n k xs) = length xs"
  by (induction k) simp_all













section \<open>Properties: the chunk size of the SDR read\<close>

lemma shrink_values:
  "shrink_reading_bytes 32 = 24" "shrink_reading_bytes 24 = 16" "shrink_reading_bytes 16 = 8"
  "shrink_reading_bytes 8 = 5"
  by (simp_all add: shrink_reading_bytes_def sdrHeaderSize_def Let_def word_less_nat_alt)

lemma reading_bytes_after_cases:
  "reading_bytes_after k \<in> {32, 24, 16, 8, 5}"
proof (induction k)
  case 0
  show ?case by (simp add: sdrDefaultReadBytes_def)
next
  case (Suc k)
  then consider "reading_bytes_after k = 32" | "reading_bytes_after k = 24"
    | "reading_bytes_after k = 16" | "reading_bytes_after k = 8" | "reading_bytes_after k = 5"
    by auto
  then show ?case
    by cases (simp_all add: shrink_values sdrHeaderSize_def word_less_nat_alt)
qed

lemma shrink_props:
  assumes "rb \<in> {32, 24, 16, 8, 5}" "rb > 5"
  shows "unat (shrink_reading_bytes rb) = max 5 (unat rb - 8)
     \<and> shrink_reading_bytes rb < rb \<and> shrink_reading_bytes rb \<ge> 5"
proof -
  from assms consider "rb = 32" | "rb = 24" | "rb = 16" | "rb = 8" by auto
  then show ?thesis
    by cases (simp_all add: shrink_values word_less_nat_alt word_le_nat_alt)
qed

text \<open>
  Claim C9. \<open>CompletionRequestDataFieldExceedEd\<close> is 0xCA and a client starts with
  a chunk size of 32. Let the chunk size \<open>rb\<close> be what \<open>k\<close> shrinks leave of it, and
  let the Get SDR for the chunk at offset \<open>n\<close> of a body fail with that completion
  code. Then \<open>rb\<close> is at least 5. If it is above 5, the loop of \<open>sdrGetRecord\<close> goes
  on with the same offset and buffer, so the same chunk is asked for again and no error
  is returned, with the chunk size 8 less but not below 5, which is smaller than
  before. If it is 5, the command error is returned and the chunk size stays. The last
  part states the step of the loop for any chunk size: above 5 it goes on with the
  adjusted size, else it returns the error.
\<close>

theorem C9_chunk_backoff:
  "CompletionRequestDataFieldExceedEd = 0xca
   \<and> reading_bytes_after 0 = 32
   \<and> (rb = reading_bytes_after k \<longrightarrow> n < RemainingBytes header \<longrightarrow>
        r = (if RemainingBytes header - n > rb then rb else RemainingBytes header - n) \<longrightarrow>
        peer b (GetSDRCommand reservation (RecordID header) (n + 5) r)
          = (b', Inl (CommandError CompletionRequestDataFieldExceedEd)) \<longrightarrow>
        rb \<ge> 5
        \<and> (rb > 5 \<longrightarrow>
              sdrGetRecord_loop (Suc fuel) peer reservation header n buf rb b
                = sdrGetRecord_loop fuel peer reservation header n buf (shrink_reading_bytes rb) b'
              \<and> shrink_reading_bytes rb = reading_bytes_after (Suc k)
              \<and> unat (shrink_reading_bytes rb) = max 5 (unat rb - 8)
              \<and> shrink_reading_bytes rb < rb)
        \<and> (rb = 5 \<longrightarrow>
              sdrGetRecord_loop (Suc fuel) peer reservation header n buf rb b
                = Some (rb, b', Inl (CommandError CompletionRequestDataFieldExceedEd))
              \<and> reading_bytes_after (Suc k) = rb))
   \<and> (n < RemainingBytes header \<longrightarrow>
        r = (if RemainingBytes header - n > rb then rb else RemainingBytes header - n) \<longrightarrow>
        peer b (GetSDRCommand reservation (RecordID header) (n + 5) r)
          = (b', Inl (CommandError CompletionRequestDataFieldExceedEd)) \<longrightarrow>
        sdrGetRecord_loop (Suc fuel) peer reservation header n buf rb b
          = (if rb > 5
             then sdrGetRecord_loop fuel peer reservation header n buf
                    (shrink_reading_bytes rb) b'
             else Some (rb, b', Inl (CommandError CompletionRequestDataFieldExceedEd))))"
proof -
  have gen: "sdrGetRecord_loop (Suc fuel) peer reservation header n buf rb b
          = (if rb > 5
             then sdrGetRecord_loop fuel peer reservation header n buf
                    (shrink_reading_bytes rb) b'
             else Some (rb, b', Inl (CommandError CompletionRequestDataFieldExceedEd)))"
    if n: "n < RemainingBytes header"
      and r: "r = (if RemainingBytes header - n > rb then rb else RemainingBytes header - n)"
      and ex: "peer b (GetSDRCommand reservation (RecordID header) (n + 5) r)
          = (b', Inl (CommandError CompletionRequestDataFieldExceedEd))"
  proof -
    have exe: "Execute_GetSDRCommand peer b reservation (RecordID header)
                 (n + of_nat sdrHeaderSize) r
               = (b', Inl (CommandError CompletionRequestDataFieldExceedEd))"
      using ex by (simp add: Execute_GetSDRCommand_def sdrHeaderSize_def)
    show ?thesis
      using n r exe by (simp add: Let_def sdrHeaderSize_def)
  qed
  have step: "rb \<ge> 5
        \<and> (rb > 5 \<longrightarrow>
              sdrGetRecord_loop (Suc fuel) peer reservation header n buf rb b
                = sdrGetRecord_loop fuel peer reservation header n buf (shrink_reading_bytes rb) b'
              \<and> shrink_reading_bytes rb = reading_bytes_after (Suc k)
              \<and> unat (shrink_reading_bytes rb) = max 5 (unat rb - 8)
              \<and> shrink_reading_bytes rb < rb)
        \<and> (rb = 5 \<longrightarrow>
              sdrGetRecord_loop (Suc fuel) peer reservation header n buf rb b
                = Some (rb, b', Inl (CommandError CompletionRequestDataFieldExceedEd))
              \<and> reading_bytes_after (Suc k) = rb)"
    if rb: "rb = reading_bytes_after k" and n: "n < RemainingBytes header"
      and r: "r = (if RemainingBytes header - n > rb then rb else RemainingBytes header - n)"
      and ex: "peer b (GetSDRCommand reservation (RecordID header) (n + 5) r)
          = (b', Inl (CommandError CompletionRequestDataFieldExceedEd))"
  proof -
    have mem: "rb \<in> {32, 24, 16, 8, 5}" using rb reading_bytes_after_cases by simp
    then have ge: "rb \<ge> 5" by (auto simp: word_le_nat_alt)
    have loop: "sdrGetRecord_loop (Suc fuel) peer reservation header n buf rb b
       = (if rb > 5
          then sdrGetRecord_loop fuel peer reservation header n buf (shrink_reading_bytes rb) b'
          else Some (rb, b', Inl (CommandError CompletionRequestDataFieldExceedEd)))"
      by (rule gen [OF n r ex])
    have suc: "reading_bytes_after (Suc k)
        = (if rb > 5 then shrink_reading_bytes rb else rb)"
      using rb by (simp add: sdrHeaderSize_def)
    show ?thesis
    proof (cases "rb > 5")
      case True
      then have ne: "rb \<noteq> 5" by auto
      with True shrink_props [OF mem True] loop suc ge show ?thesis
        by (simp del: sdrGetRecord_loop.simps)
    next
      case False
      with ge have "rb = 5" by simp
      with loop suc show ?thesis
        by (simp del: sdrGetRecord_loop.simps)
    qed
  qed
  have c1: "CompletionRequestDataFieldExceedEd = 0xca"
    by (simp add: CompletionRequestDataFieldExceedEd_def)
  have c2: "reading_bytes_after 0 = 32"
    by (simp add: sdrDefaultReadBytes_def)
  show ?thesis
    using c1 c2 step gen by blast
qed


text \<open>
  The chunk sizes 6 and 7 are not among those reached from 32; on them the
  subtraction of 8 wraps around in the \<open>uint8\<close>.
\<close>

lemma shrink_reading_bytes_wraps:
  "shrink_reading_bytes 6 = 254 \<and> shrink_reading_bytes 7 = 255"
  by code_simp

text \<open>
  Over the whole loop: the chunk size at the end is one of 32, 24, 16, 8 and 5 and not
  above the one at the start, and when the loop returns the error Request data field
  exceeded, the chunk size is 5.
\<close>

lemma loop_reading_bytes:
  "sdrGetRecord_loop fuel peer reservation header n buf rb b = Some (rb', b', x) \<Longrightarrow>
   rb \<in> {32, 24, 16, 8, 5} \<Longrightarrow>
   rb' \<in> {32, 24, 16, 8, 5} \<and> rb' \<le> rb
   \<and> (x = Inl (CommandError CompletionRequestDataFieldExceedEd) \<longrightarrow> rb' = 5)"
proof (induction fuel arbitrary: n buf rb b)
  case 0
  then show ?case by simp
next
  case (Suc fuel)
  show ?case
  proof (cases "n < RemainingBytes header")
    case False
    with Suc.prems show ?thesis by auto
  next
    case True
    define r where "r = (if RemainingBytes header - n > rb then rb else RemainingBytes header - n)"
    obtain b1 res where ex: "Execute_GetSDRCommand peer b reservation (RecordID header)
        (n + of_nat sdrHeaderSize) r = (b1, res)"
      by (cases "Execute_GetSDRCommand peer b reservation (RecordID header)
        (n + of_nat sdrHeaderSize) r")
    show ?thesis
    proof (cases res)
      case (Inr p)
      obtain nx d where p: "p = (nx, d)" by (cases p)
      have "sdrGetRecord_loop fuel peer reservation header (n + of_nat (length d))
              (copy_at (unat n) buf d) rb b1 = Some (rb', b', x)"
        using Suc.prems(1) True ex Inr p by (simp add: Let_def r_def)
      from Suc.IH [OF this Suc.prems(2)] show ?thesis .
    next
      case (Inl e)
      show ?thesis
      proof (cases "e = CommandError CompletionRequestDataFieldExceedEd \<and> rb > 5")
        case True
        then have gt: "rb > 5" by simp
        have l: "sdrGetRecord_loop fuel peer reservation header n buf
                   (shrink_reading_bytes rb) b1 = Some (rb', b', x)"
          using Suc.prems(1) \<open>n < RemainingBytes header\<close> ex Inl True
          by (simp add: Let_def r_def sdrHeaderSize_def)
        from Suc.prems(2) gt consider "rb = 32" | "rb = 24" | "rb = 16" | "rb = 8" by auto
        then have m: "shrink_reading_bytes rb \<in> {32, 24, 16, 8, 5}"
          by cases (simp_all add: shrink_values)
        have lt: "shrink_reading_bytes rb < rb"
          using shrink_props [OF Suc.prems(2) gt] by simp
        from Suc.IH [OF l m] lt show ?thesis by auto
      next
        case False
        then have res': "rb' = rb" "x = Inl e"
          using Suc.prems(1) \<open>n < RemainingBytes header\<close> ex Inl
          by (auto simp: Let_def r_def sdrHeaderSize_def)
        from Suc.prems(2) have "rb \<ge> 5" by (auto simp: word_le_nat_alt)
        with False res' Suc.prems(2) show ?thesis by auto
      qed
    qed
  qed
qed

text \<open>
  The statement at the peers with the limits 16 and 4: from 32 the first shrink
  gives 24 and the read ends with the chunk size 16 and the whole body; with the limit
  4 the chunk size ends at the floor and the error is returned.
\<close>

theorem C9_chunk_backoff_witness:
  "sdrGetRecord_loop 10 (mock_limited_bmc 16) 1 mock_long_header 0 (replicate 40 0) 32 ()
     = sdrGetRecord_loop 9 (mock_limited_bmc 16) 1 mock_long_header 0 (replicate 40 0) 24 ()
   \<and> shrink_reading_bytes 32 = 24
   \<and> sdrGetRecord_loop 10 (mock_limited_bmc 4) 1 mock_long_header 0 (replicate 40 0) 5 ()
     = Some (5, (), Inl (CommandError 0xca))
   \<and> sdrGetRecord 10 (mock_limited_bmc 16) 1 mock_long_header sdrDefaultReadBytes ()
     = Some (16, (), Inr (sdrRaw mock_long_header (map of_nat [0..<40])))
   \<and> sdrGetRecord 10 (mock_limited_bmc 4) 1 mock_long_header sdrDefaultReadBytes ()
     = Some (5, (), Inl (CommandError 0xca))"
proof -
  have c: "CompletionRequestDataFieldExceedEd = 0xca"
    by (simp add: CompletionRequestDataFieldExceedEd_def)
  have k0: "(32 :: byte) = reading_bytes_after 0"
    by (simp add: sdrDefaultReadBytes_def)
  have k4: "(5 :: byte) = reading_bytes_after 4"
    by code_simp
  have n0: "(0 :: byte) < RemainingBytes mock_long_header"
    by (simp add: mock_long_header_def)
  have r32: "(32 :: byte) = (if RemainingBytes mock_long_header - 0 > 32 then 32
                             else RemainingBytes mock_long_header - 0)"
    by (simp add: mock_long_header_def word_less_nat_alt)
  have r5: "(5 :: byte) = (if RemainingBytes mock_long_header - 0 > 5 then 5
                           else RemainingBytes mock_long_header - 0)"
    by (simp add: mock_long_header_def word_less_nat_alt)
  have p32: "mock_limited_bmc 16 () (GetSDRCommand 1 (RecordID mock_long_header) (0 + 5) 32)
      = ((), Inl (CommandError CompletionRequestDataFieldExceedEd))"
    by (simp add: mock_limited_bmc_def c word_less_nat_alt)
  have p5: "mock_limited_bmc 4 () (GetSDRCommand 1 (RecordID mock_long_header) (0 + 5) 5)
      = ((), Inl (CommandError CompletionRequestDataFieldExceedEd))"
    by (simp add: mock_limited_bmc_def c word_less_nat_alt)
  have gt: "(32 :: byte) > 5" by (simp add: word_less_nat_alt)
  note t32 = C9_chunk_backoff [where rb = 32 and k = 0 and n = 0 and header = mock_long_header
        and r = 32 and peer = "mock_limited_bmc 16" and b = "()" and b' = "()"
        and reservation = 1 and fuel = 9 and buf = "replicate 40 0",
        THEN conjunct2, THEN conjunct2, THEN conjunct1, rule_format, OF k0 n0 r32 p32]
  note t5 = C9_chunk_backoff [where rb = 5 and k = 4 and n = 0 and header = mock_long_header
        and r = 5 and peer = "mock_limited_bmc 4" and b = "()" and b' = "()"
        and reservation = 1 and fuel = 9 and buf = "replicate 40 0",
        THEN conjunct2, THEN conjunct2, THEN conjunct1, rule_format, OF k4 n0 r5 p5]
  have a: "sdrGetRecord_loop 10 (mock_limited_bmc 16) 1 mock_long_header 0 (replicate 40 0) 32 ()
     = sdrGetRecord_loop 9 (mock_limited_bmc 16) 1 mock_long_header 0 (replicate 40 0) 24 ()"
    using t32 gt shrink_values(1) by (simp del: sdrGetRecord_loop.simps)
  have b: "sdrGetRecord_loop 10 (mock_limited_bmc 4) 1 mock_long_header 0 (replicate 40 0) 5 ()
     = Some (5, (), Inl (CommandError 0xca))"
    using t5 c by (simp del: sdrGetRecord_loop.simps)
  have e16: "sdrGetRecord 10 (mock_limited_bmc 16) 1 mock_long_header sdrDefaultReadBytes ()
     = Some (16, (), Inr (sdrRaw mock_long_header (map of_nat [0..<40])))"
    by code_simp
  have e4: "sdrGetRecord 10 (mock_limited_bmc 4) 1 mock_long_header sdrDefaultReadBytes ()
     = Some (5, (), Inl (CommandError 0xca))"
    by code_simp
  show ?thesis
    using a b e16 e4 shrink_values(1) by blast
qed

section \<open>Properties: the window of SEL entries\<close>




section \<open>Properties: the integrity trailer\<close>

lemma fill_ff_append:
  "length src = n \<Longrightarrow> k \<le> length zs \<Longrightarrow>
   fill_ff n k (src @ zs) = src @ replicate k 0xff @ drop k zs"
proof (induction k)
  case 0
  then show ?case by simp
next
  case (Suc k)
  then have k: "k < length zs" by simp
  have "fill_ff n (Suc k) (src @ zs) = (src @ replicate k 0xff @ drop k zs)[n + k := 0xff]"
    using Suc by simp
  also have "\<dots> = src @ (replicate k 0xff @ drop k zs)[k := 0xff]"
    using Suc.prems(1) by (simp add: list_update_append)
  also have "(replicate k (0xff :: byte) @ drop k zs)[k := 0xff]
      = replicate k 0xff @ (drop k zs)[0 := 0xff]"
    by (simp add: list_update_append)
  also have "(drop k zs)[0 := 0xff :: byte] = 0xff # drop (Suc k) zs"
    using k by (simp add: Cons_nth_drop_Suc [symmetric])
  finally show ?case by (simp add: replicate_append_same)
qed

text \<open>
  The pad length of the trailer is the least number that makes the source, the pad,
  the two bytes after it and the 12 bytes of the authentication code a multiple of 4.
\<close>

lemma trailer_padLen_props:
  "trailer_padLen n < 4 \<and> (n + trailer_padLen n + 2 + 12) mod 4 = 0
   \<and> (\<forall>p. (n + p + 2 + 12) mod 4 = 0 \<longrightarrow> trailer_padLen n \<le> p)"
  unfolding trailer_padLen_def Let_def by presburger

text \<open>
  The trailer is the pad of 0xFF bytes, the pad length, the next header 0x07 and the
  first 12 bytes of the MAC of the source with these bytes, for a MAC of at least 12
  bytes (HMAC-SHA1 gives 20).
\<close>

lemma makeTrailer_layout:
  assumes "12 \<le> length (mac key (src @ replicate (trailer_padLen (length src)) 0xff
                                           @ [of_nat (trailer_padLen (length src)), 0x07]))"
  shows "makeTrailer mac src key =
     replicate (trailer_padLen (length src)) 0xff
     @ [of_nat (trailer_padLen (length src)), 0x07]
     @ take 12 (mac key (src @ replicate (trailer_padLen (length src)) 0xff
                                 @ [of_nat (trailer_padLen (length src)), 0x07]))"
proof -
  define n where "n = length src"
  define p where "p = trailer_padLen n"
  define body where "body = src @ replicate p 0xff @ [of_nat p, 0x07 :: byte]"
  define ac where "ac = mac key body"
  have lac: "12 \<le> length ac" using assms by (simp add: ac_def body_def p_def n_def)
  have d0: "copy_bytes (replicate (n + p + 2 + 12) 0) src = src @ replicate (p + 14) (0 :: byte)"
    by (simp only: copy_bytes_def length_replicate drop_replicate n_def) simp
  have dr: "drop p (replicate (p + 14) (0 :: byte)) = replicate 14 0"
    by (simp only: drop_replicate) simp
  have "fill_ff n p (src @ replicate (p + 14) 0)
      = src @ replicate p 0xff @ drop p (replicate (p + 14) 0)"
    by (rule fill_ff_append) (simp_all add: n_def)
  then have d1: "fill_ff n p (src @ replicate (p + 14) 0) = src @ replicate p 0xff @ replicate 14 0"
    by (simp only: dr)
  have r14: "replicate 14 (0 :: byte) = 0 # 0 # replicate 12 0"
    by (simp add: numeral_nat)
  have d3: "(src @ replicate p 0xff @ replicate 14 0)[n + p := of_nat p, n + p + 1 := 0x07]
      = body @ replicate 12 (0 :: byte)"
    unfolding r14 body_def by (simp add: list_update_append n_def)
  have lb: "length body = n + p + 2" by (simp add: body_def n_def)
  have tk: "take (n + p + 2) (body @ replicate 12 (0 :: byte)) = body"
    using lb by simp
  have d4: "copy_at (n + p + 2) (body @ replicate 12 0) (take 12 ac) = body @ take 12 ac"
    using lb lac by (simp add: copy_at_def copy_bytes_def)
  have "makeTrailer mac src key =
      drop n (copy_at (n + p + 2)
        ((fill_ff n p (copy_bytes (replicate (n + p + 2 + 12) 0) src))
           [n + p := of_nat p, n + p + 1 := 0x07])
        (take 12 (mac key (take (n + p + 2)
           ((fill_ff n p (copy_bytes (replicate (n + p + 2 + 12) 0) src))
              [n + p := of_nat p, n + p + 1 := 0x07])))))"
    by (simp add: makeTrailer_def Let_def n_def p_def)
  also have "\<dots> = drop n (body @ take 12 ac)"
    by (simp only: d0 d1 d3 tk ac_def [symmetric] d4)
  also have "\<dots> = replicate p 0xff @ [of_nat p, 0x07] @ take 12 ac"
    by (simp add: body_def n_def)
  finally show ?thesis
    by (simp add: p_def ac_def body_def n_def)
qed

text \<open>The source with its trailer is accepted.\<close>

lemma validateTrailer_accepts:
  assumes "12 \<le> length (mac key (src @ replicate (trailer_padLen (length src)) 0xff
                                           @ [of_nat (trailer_padLen (length src)), 0x07]))"
  shows "validateTrailer mac (src @ makeTrailer mac src key) key = None"
  using assms
  by (simp add: makeTrailer_layout [where mac = mac and src = src and key = key]
      validateTrailer_def Let_def)

text \<open>
  Any change of the 12 bytes of the authentication code is refused. Whether a change
  of the bytes before it is refused depends on the MAC of the changed bytes, of which
  the code compares 12 bytes; nothing about that is stated here.
\<close>

lemma validateTrailer_rejects_authcode:
  assumes "length code = 12" and "code \<noteq> take 12 (mac key body)"
  shows "validateTrailer mac (body @ code) key = Some MessageError"
  using assms by (simp add: validateTrailer_def Let_def)

end
